theory Spec2Isabelle
  imports Complex_Main
begin

section \<open>Python string operations used by the tools\<close>

text \<open>
  Strings are lists of \<^typ>\<open>char\<close>, read as code points below 256. The tables below are
  Python's \<^verbatim>\<open>str.isspace\<close> and \<^verbatim>\<open>str.lower\<close> restricted to that range.
\<close>

definition isspace :: "char \<Rightarrow> bool" where
  "isspace c =
     (let n = (of_char c :: nat)
      in (9 \<le> n \<and> n \<le> 13) \<or> (28 \<le> n \<and> n \<le> 32) \<or> n = 133 \<or> n = 160)"

definition lower_char :: "char \<Rightarrow> char" where
  "lower_char c =
     (let n = (of_char c :: nat)
      in if (65 \<le> n \<and> n \<le> 90) \<or> (192 \<le> n \<and> n \<le> 222 \<and> n \<noteq> 215)
         then char_of (n + 32) else c)"

text \<open>\<^verbatim>\<open>s.lower()\<close>\<close>

definition lower :: "string \<Rightarrow> string" where
  "lower s = map lower_char s"

text \<open>\<^verbatim>\<open>s.strip()\<close>\<close>

definition strip :: "string \<Rightarrow> string" where
  "strip s = rev (dropWhile isspace (rev (dropWhile isspace s)))"

text \<open>\<^verbatim>\<open>s.split(",")\<close>: the pieces between commas, empty pieces included.\<close>

fun split_comma :: "string \<Rightarrow> string list" where
  "split_comma [] = [[]]"
| "split_comma (c # cs) =
     (if c = CHR '','' then [] # split_comma cs
      else (case split_comma cs of
              [] \<Rightarrow> [[c]]
            | p # ps \<Rightarrow> (c # p) # ps))"

text \<open>\<^verbatim>\<open>t.startswith(w)\<close> and the substring test \<^verbatim>\<open>w in t\<close>.\<close>

fun startswith :: "string \<Rightarrow> string \<Rightarrow> bool" where
  "startswith [] t = True"
| "startswith (c # cs) [] = False"
| "startswith (c # cs) (d # ds) = (c = d \<and> startswith cs ds)"

fun contains :: "string \<Rightarrow> string \<Rightarrow> bool" where
  "contains w [] = (w = [])"
| "contains w (c # cs) = (startswith w (c # cs) \<or> contains w cs)"

text \<open>
  The comprehension of lines 117 and 174 of \<^verbatim>\<open>agent.py\<close>:
  \<^verbatim>\<open>[w.strip().lower() for w in s.split(",") if w.strip()]\<close>
\<close>

definition parse_topics :: "string \<Rightarrow> string list" where
  "parse_topics s = map (\<lambda>w. lower (strip w)) (filter (\<lambda>w. strip w \<noteq> []) (split_comma s))"

text \<open>\<^verbatim>\<open>any(w in t.lower() for w in ws)\<close>\<close>

definition any_in :: "string list \<Rightarrow> string \<Rightarrow> bool" where
  "any_in ws t = list_ex (\<lambda>w. contains w (lower t)) ws"

section \<open>The catalog\<close>

definition SYLLABUS :: "string \<Rightarrow> string list option" where
  "SYLLABUS = map_of
     [(''generative ai'',
       [''LLM fundamentals'',
        ''Prompt engineering'',
        ''OpenAI & Groq APIs'',
        ''LangChain basics'',
        ''Agents and Tools'',
        ''RAG'',
        ''Agent security & guardrails''])]"

definition PRACTICE_TASKS :: "string \<Rightarrow> string list option" where
  "PRACTICE_TASKS = map_of
     [(''LLM fundamentals'',
       [''Explain in your own words what an LLM is and how it is trained.'',
        ''Compare two LLM architectures and list their pros/cons.'']),
      (''Prompt engineering'',
       [''Write prompts in zero-shot, few-shot and chain-of-thought styles.'',
        ''Rewrite a vague prompt into a precise, constrained one.'']),
      (''LangChain basics'',
       [''Build a simple LangChain LLMChain using a PromptTemplate.'',
        ''Create a LangChain chain that calls two steps in sequence.'']),
      (''Agents and Tools'',
       [''Create a ReAct agent that uses at least two tools.'',
        ''Implement a custom LangChain tool and expose it to an agent.'']),
      (''RAG'',
       [''Implement a basic RAG pipeline using a single PDF.'',
        ''Experiment with different chunk sizes and compare answer quality.'']),
      (''Agent security & guardrails'',
       [''Design a simple prompt-based safety policy for your agent.'',
        ''Add checks to block obviously unsafe or irrelevant queries.''])]"

section \<open>Replies of the tools\<close>

text \<open>
  Every tool returns a string. A reply that is built by joining a list of lines is kept as
  that list, each line by its kind and the values formatted into it; the three fixed
  messages are constructors of their own.
  Each tool first appends its name and arguments to \<^verbatim>\<open>TOOL_LOG\<close>; the log is not read by
  any tool and is left out.
\<close>

datatype line =
    OutlineHdr string    \<comment> \<open>\<^verbatim>\<open>Topics for {module_name}:\<close>\<close>
  | Bullet string        \<comment> \<open>\<^verbatim>\<open>- {t}\<close>\<close>
  | Title string         \<comment> \<open>\<^verbatim>\<open>Study schedule for '{module_name}'\<close>\<close>
  | Budget int rat       \<comment> \<open>\<^verbatim>\<open>Days until exam: {..}, Hours per day: {..}\<close>\<close>
  | WeakLine string      \<comment> \<open>\<^verbatim>\<open>Weak topics prioritized: {..}\<close>\<close>
  | Blank                \<comment> \<open>the empty line\<close>
  | DayHdr int           \<comment> \<open>\<^verbatim>\<open>Day {d}:\<close>\<close>
  | Item string rat      \<comment> \<open>\<^verbatim>\<open>  - {topic}: {hrs} hour(s)\<close>\<close>
  | PracticeHdr          \<comment> \<open>\<^verbatim>\<open>Practice tasks:\<close>\<close>
  | TopicHdr string      \<comment> \<open>\<^verbatim>\<open>* {topic}\<close>\<close>
  | Task string          \<comment> \<open>\<^verbatim>\<open>  - {t}\<close>\<close>

datatype py_error = ZeroDivisionError | KeyError

datatype reply =
    NotFound string      \<comment> \<open>\<^verbatim>\<open>No module named '{module_name}' found.\<close>\<close>
  | Unbuildable          \<comment> \<open>\<^verbatim>\<open>Could not build a useful schedule.\<close>\<close>
  | NoMatches            \<comment> \<open>\<^verbatim>\<open>No specific practice tasks found for the given focus topics.\<close>\<close>
  | Text "line list"     \<comment> \<open>the lines joined by newlines\<close>
  | Raised py_error      \<comment> \<open>an exception leaves the tool\<close>

section \<open>get_module_outline\<close>

definition get_module_outline :: "string \<Rightarrow> reply" where
  "get_module_outline module_name =
     (case SYLLABUS (strip (lower module_name)) of
        None \<Rightarrow> NotFound module_name
      | Some topics \<Rightarrow>
          if topics = [] then NotFound module_name
          else Text (OutlineHdr module_name # map Bullet topics))"

section \<open>suggest_practice_tasks\<close>

text \<open>The loop over the topics, with \<^verbatim>\<open>lines\<close> as its accumulator.\<close>

fun practice_loop :: "string list \<Rightarrow> string list \<Rightarrow> line list \<Rightarrow> line list" where
  "practice_loop focus_list [] lines = lines"
| "practice_loop focus_list (topic # rest) lines =
     (if focus_list \<noteq> [] \<and> \<not> any_in focus_list topic
      then practice_loop focus_list rest lines
      else
        (let tasks = (case PRACTICE_TASKS topic of None \<Rightarrow> [] | Some ts \<Rightarrow> ts)
         in if tasks = [] then practice_loop focus_list rest lines
            else practice_loop focus_list rest
                   (lines @ [TopicHdr topic] @ map Task tasks @ [Blank])))"

definition suggest_practice_tasks :: "string \<Rightarrow> string \<Rightarrow> reply" where
  "suggest_practice_tasks module_name focus_topics =
     (case SYLLABUS (strip (lower module_name)) of
        None \<Rightarrow> NotFound module_name
      | Some topics \<Rightarrow>
          if topics = [] then NotFound module_name
          else
            (let focus_list = parse_topics focus_topics;
                 lines = practice_loop focus_list topics [PracticeHdr]
             in if length lines = 1 then NoMatches else Text lines))"

section \<open>build_study_schedule\<close>

text \<open>
  Hours are Python floats in the source. They are modelled by exact rationals: the
  arithmetic of the model is the arithmetic the source's formulas denote, without the
  rounding of IEEE doubles. \<^verbatim>\<open>round(x, 1)\<close> is rounding to one decimal, ties to even.
\<close>

type_synonym entry = "string \<times> rat"

text \<open>The dictionary from day to entry list, in insertion order.\<close>

type_synonym schedule = "(int \<times> entry list) list"

definition round1 :: "rat \<Rightarrow> rat" where
  "round1 x =
     (let y = x * 10; f = \<lfloor>y\<rfloor>; r = y - of_int f
      in of_int (if r < 1 / 2 then f
                 else if 1 / 2 < r then f + 1
                 else if even f then f else f + 1) / 10)"

text \<open>\<^verbatim>\<open>{day: [] for day in range(1, days_until_exam + 1)}\<close>\<close>

definition empty_schedule :: "int \<Rightarrow> schedule" where
  "empty_schedule days_until_exam = map (\<lambda>day. (day, [])) [1..days_until_exam]"

text \<open>\<^verbatim>\<open>schedule[day].append(e)\<close>; a missing key raises.\<close>

fun append_entry :: "int \<Rightarrow> entry \<Rightarrow> schedule \<Rightarrow> py_error + schedule" where
  "append_entry day e [] = Inl KeyError"
| "append_entry day e ((d, items) # rest) =
     (if d = day then Inr ((d, items @ [e]) # rest)
      else (case append_entry day e rest of
              Inl err \<Rightarrow> Inl err
            | Inr rest' \<Rightarrow> Inr ((d, items) # rest')))"

text \<open>\<^verbatim>\<open>schedule[day]\<close>\<close>

definition lookup_day :: "schedule \<Rightarrow> int \<Rightarrow> py_error + entry list" where
  "lookup_day sched day =
     (case map_of sched day of None \<Rightarrow> Inl KeyError | Some items \<Rightarrow> Inr items)"

text \<open>Lines 120 to 122: weak topics get double weight.\<close>

definition weights_of :: "string list \<Rightarrow> string list \<Rightarrow> int list" where
  "weights_of weak_list topics = map (\<lambda>t. if any_in weak_list t then 2 else 1) topics"

text \<open>Lines 123 and 125; the division raises when \<^verbatim>\<open>total_weight\<close> is zero.\<close>

definition hours_per_topic_of :: "int list \<Rightarrow> rat \<Rightarrow> py_error + rat list" where
  "hours_per_topic_of weights total_hours =
     (let total_weight = sum_list weights
      in if weights \<noteq> [] \<and> total_weight = 0 then Inl ZeroDivisionError
         else Inr (map (\<lambda>w. (of_int w / of_int total_weight) * total_hours) weights))"

text \<open>The body of the \<^verbatim>\<open>while\<close> loop, lines 134 to 140.\<close>

definition pack_step ::
  "rat \<Rightarrow> string \<Rightarrow> schedule \<Rightarrow> int \<Rightarrow> rat \<Rightarrow> py_error + (schedule \<times> int \<times> rat)" where
  "pack_step hours_per_day topic sched day remaining =
     (let chunk = min remaining (hours_per_day / 2)
      in case append_entry day (topic, round1 chunk) sched of
           Inl err \<Rightarrow> Inl err
         | Inr sched' \<Rightarrow>
             (case lookup_day sched' day of
                Inl err \<Rightarrow> Inl err
              | Inr items \<Rightarrow>
                  (let day_load = sum_list (map snd items)
                   in Inr (sched',
                           if hours_per_day * (9 / 10) \<le> day_load then day + 1 else day,
                           remaining - chunk))))"

text \<open>
  The \<^verbatim>\<open>while\<close> loop of line 132. \<^const>\<open>None\<close> is a loop that does not return.
\<close>

partial_function (option) pack_while ::
  "int \<Rightarrow> rat \<Rightarrow> string \<Rightarrow> schedule \<Rightarrow> int \<Rightarrow> rat
     \<Rightarrow> (py_error + (schedule \<times> int \<times> rat)) option" where
  "pack_while days_until_exam hours_per_day topic sched day remaining =
     (if 0 < remaining \<and> day \<le> days_until_exam
      then (case pack_step hours_per_day topic sched day remaining of
              Inl err \<Rightarrow> Some (Inl err)
            | Inr (sched', day', remaining') \<Rightarrow>
                pack_while days_until_exam hours_per_day topic sched' day' remaining')
      else Some (Inr (sched, day, remaining)))"

declare pack_while.simps [code]

text \<open>The \<^verbatim>\<open>for\<close> loop of line 130 over \<^verbatim>\<open>zip(topics, hours_per_topic)\<close>.\<close>

fun pack_topics ::
  "int \<Rightarrow> rat \<Rightarrow> schedule \<Rightarrow> int \<Rightarrow> (string \<times> rat) list
     \<Rightarrow> (py_error + (schedule \<times> int)) option" where
  "pack_topics days_until_exam hours_per_day sched day [] = Some (Inr (sched, day))"
| "pack_topics days_until_exam hours_per_day sched day ((topic, hours) # rest) =
     (case pack_while days_until_exam hours_per_day topic sched day hours of
        None \<Rightarrow> None
      | Some (Inl err) \<Rightarrow> Some (Inl err)
      | Some (Inr (sched', day', remaining')) \<Rightarrow>
          pack_topics days_until_exam hours_per_day sched' day' rest)"

text \<open>Lines 148 to 154: the days that have entries, in order.\<close>

definition format_days :: "schedule \<Rightarrow> line list" where
  "format_days sched =
     concat (map (\<lambda>(d, items).
                    if items = [] then []
                    else DayHdr d # map (\<lambda>(topic, hrs). Item topic hrs) items @ [Blank])
                 sched)"

definition header :: "string \<Rightarrow> int \<Rightarrow> rat \<Rightarrow> string \<Rightarrow> line list" where
  "header module_name days_until_exam hours_per_day weak_topics =
     [Title module_name,
      Budget days_until_exam hours_per_day,
      WeakLine (if weak_topics = [] then ''None specified'' else weak_topics),
      Blank]"

definition build_study_schedule :: "string \<Rightarrow> int \<Rightarrow> rat \<Rightarrow> string \<Rightarrow> reply option" where
  "build_study_schedule module_name days_until_exam hours_per_day weak_topics =
     (case SYLLABUS (strip (lower module_name)) of
        None \<Rightarrow> Some (NotFound module_name)
      | Some topics \<Rightarrow>
          if topics = [] then Some (NotFound module_name)
          else
            (let weak_list = parse_topics weak_topics;
                 weights = weights_of weak_list topics;
                 total_hours = of_int days_until_exam * hours_per_day
             in case hours_per_topic_of weights total_hours of
                  Inl err \<Rightarrow> Some (Raised err)
                | Inr hours_per_topic \<Rightarrow>
                    (case pack_topics days_until_exam hours_per_day
                            (empty_schedule days_until_exam) 1 (zip topics hours_per_topic) of
                       None \<Rightarrow> None
                     | Some (Inl err) \<Rightarrow> Some (Raised err)
                     | Some (Inr (sched, day)) \<Rightarrow>
                         (let lines = header module_name days_until_exam hours_per_day weak_topics
                                        @ format_days sched
                          in if 4 < length lines then Some (Text lines)
                             else Some Unbuildable))))"

section \<open>Reading a reply\<close>


fun item_topics :: "line list \<Rightarrow> string list" where
  "item_topics [] = []"
| "item_topics (Item topic hrs # ls) = topic # item_topics ls"
| "item_topics (l # ls) = item_topics ls"

text \<open>All entries of a schedule, day after day.\<close>

definition all_entries :: "schedule \<Rightarrow> entry list" where
  "all_entries sched = concat (map snd sched)"


text \<open>\<^verbatim>\<open>PRACTICE_TASKS.get(topic, [])\<close>\<close>

definition tasks_of :: "string \<Rightarrow> string list" where
  "tasks_of topic = (case PRACTICE_TASKS topic of None \<Rightarrow> [] | Some ts \<Rightarrow> ts)"

section \<open>Strings: what the substring test decides\<close>





lemma syllabus_nonempty: "SYLLABUS k = Some topics \<Longrightarrow> topics \<noteq> []"
  by (auto simp: SYLLABUS_def split: if_splits)

section \<open>The practice-task loop\<close>

lemma practice_loop_eq:
  "practice_loop fl ts lines =
     lines @ concat (map (\<lambda>t. TopicHdr t # map Task (tasks_of t) @ [Blank])
                         (filter (\<lambda>t. (fl = [] \<or> any_in fl t) \<and> tasks_of t \<noteq> []) ts))"
  by (induction ts arbitrary: lines) (auto simp: Let_def tasks_of_def)

section \<open>Rounding to one decimal\<close>


lemma round1_lower: "x - 1 / 20 \<le> round1 x"
proof -
  define y where "y = x * 10"
  define f where "f = \<lfloor>y\<rfloor>"
  have "of_int f \<le> y" "y < of_int f + 1" unfolding f_def by linarith+
  then show ?thesis
    unfolding round1_def Let_def y_def [symmetric] f_def [symmetric]
    by (auto simp: y_def field_simps)
qed


section \<open>Schedules\<close>










lemma item_topics_append: "item_topics (xs @ ys) = item_topics xs @ item_topics ys"
  by (induction xs rule: item_topics.induct) auto


lemma item_topics_items: "item_topics (map (\<lambda>(topic, hrs). Item topic hrs) items) = map fst items"
  by (induction items) auto


lemma item_topics_format: "item_topics (format_days s) = map fst (all_entries s)"
  by (induction s) (auto simp: format_days_def all_entries_def item_topics_append item_topics_items)







section \<open>One iteration\<close>



lemma pack_step_advance:
  assumes "pack_step H t s d r = Inr (s2, d2, r2)"
  shows "\<exists>items. map_of s2 d = Some items
           \<and> d2 = (if H * (9 / 10) \<le> sum_list (map snd items) then d + 1 else d)"
  using assms by (auto simp: pack_step_def Let_def lookup_day_def split: sum.splits option.splits)

section \<open>The while loop\<close>





section \<open>The for loop\<close>








section \<open>Hours per topic\<close>







section \<open>The budget of the packing loops\<close>








section \<open>No chunk above half a day\<close>



section \<open>Day 1\<close>





section \<open>A request for a known module\<close>




section \<open>Claims\<close>









text \<open>
  C5. \<open>build_study_schedule("generative ai", 5, 3.0, "")\<close>: every weight is 1, every topic
  is allotted 15/7 hours, and the reply has entries on all five days that cover the seven
  topics of the catalog, in catalog order.
\<close>

theorem uniform_schedule_example:
  "weights_of (parse_topics '''')
      [''LLM fundamentals'', ''Prompt engineering'', ''OpenAI & Groq APIs'', ''LangChain basics'',
       ''Agents and Tools'', ''RAG'', ''Agent security & guardrails''] = [1, 1, 1, 1, 1, 1, 1]
   \<and> hours_per_topic_of [1, 1, 1, 1, 1, 1, 1] (of_int 5 * 3)
       = Inr [15 / 7, 15 / 7, 15 / 7, 15 / 7, 15 / 7, 15 / 7, 15 / 7]
   \<and> build_study_schedule ''generative ai'' 5 3 '''' =
       Some (Text [Title ''generative ai'', Budget 5 3, WeakLine ''None specified'', Blank,
                   DayHdr 1,
                   Item ''LLM fundamentals'' (3 / 2),
                   Item ''LLM fundamentals'' (3 / 5),
                   Item ''Prompt engineering'' (3 / 2),
                   Blank,
                   DayHdr 2,
                   Item ''Prompt engineering'' (3 / 5),
                   Item ''OpenAI & Groq APIs'' (3 / 2),
                   Item ''OpenAI & Groq APIs'' (3 / 5),
                   Blank,
                   DayHdr 3,
                   Item ''LangChain basics'' (3 / 2),
                   Item ''LangChain basics'' (3 / 5),
                   Item ''Agents and Tools'' (3 / 2),
                   Blank,
                   DayHdr 4,
                   Item ''Agents and Tools'' (3 / 5),
                   Item ''RAG'' (3 / 2),
                   Item ''RAG'' (3 / 5),
                   Blank,
                   DayHdr 5,
                   Item ''Agent security & guardrails'' (3 / 2),
                   Item ''Agent security & guardrails'' (3 / 5),
                   Blank])
   \<and> remdups (item_topics
         [Title ''generative ai'', Budget 5 3, WeakLine ''None specified'', Blank,
          DayHdr 1,
          Item ''LLM fundamentals'' (3 / 2),
          Item ''LLM fundamentals'' (3 / 5),
          Item ''Prompt engineering'' (3 / 2),
          Blank,
          DayHdr 2,
          Item ''Prompt engineering'' (3 / 5),
          Item ''OpenAI & Groq APIs'' (3 / 2),
          Item ''OpenAI & Groq APIs'' (3 / 5),
          Blank,
          DayHdr 3,
          Item ''LangChain basics'' (3 / 2),
          Item ''LangChain basics'' (3 / 5),
          Item ''Agents and Tools'' (3 / 2),
          Blank,
          DayHdr 4,
          Item ''Agents and Tools'' (3 / 5),
          Item ''RAG'' (3 / 2),
          Item ''RAG'' (3 / 5),
          Blank,
          DayHdr 5,
          Item ''Agent security & guardrails'' (3 / 2),
          Item ''Agent security & guardrails'' (3 / 5),
          Blank])
       = [''LLM fundamentals'', ''Prompt engineering'', ''OpenAI & Groq APIs'',
          ''LangChain basics'', ''Agents and Tools'', ''RAG'', ''Agent security & guardrails'']
   \<and> SYLLABUS ''generative ai'' =
       Some [''LLM fundamentals'', ''Prompt engineering'', ''OpenAI & Groq APIs'',
             ''LangChain basics'', ''Agents and Tools'', ''RAG'', ''Agent security & guardrails'']"
  by code_simp

text \<open>
  C6. When the lower-cased, trimmed module name is not a key of the catalog, each of the
  three tools replies with the not-found message that carries the module name as given;
  the reply is produced before any weight, allocation or schedule exists.
\<close>

theorem unknown_module_not_found:
  assumes "SYLLABUS (strip (lower module_name)) = None"
  shows "get_module_outline module_name = NotFound module_name
       \<and> build_study_schedule module_name days_until_exam hours_per_day weak_topics
           = Some (NotFound module_name)
       \<and> suggest_practice_tasks module_name focus_topics = NotFound module_name"
  using assms
  by (simp add: get_module_outline_def build_study_schedule_def suggest_practice_tasks_def)

theorem unknown_module_not_found_witness:
  "SYLLABUS (strip (lower ''Nonexistent Module '')) = None
   \<and> get_module_outline ''Nonexistent Module '' = NotFound ''Nonexistent Module ''
   \<and> build_study_schedule ''Nonexistent Module '' 5 3 ''rag''
       = Some (NotFound ''Nonexistent Module '')
   \<and> suggest_practice_tasks ''Nonexistent Module '' ''rag'' = NotFound ''Nonexistent Module ''"
proof -
  have n: "SYLLABUS (strip (lower ''Nonexistent Module '')) = None" by code_simp
  from unknown_module_not_found [OF n, of 5 3 "''rag''" "''rag''"] n show ?thesis by blast
qed

text \<open>
  C7. For a known module, \<open>suggest_practice_tasks\<close> gives the no-matches reply exactly
  when every topic is either filtered out by the focus substrings or has no registered
  task; otherwise the reply lists, in catalog order, exactly the topics that match a focus
  substring (all topics when there is no focus substring) and have a registered task, each
  followed by all of its tasks.
\<close>

theorem practice_tasks_selection:
  assumes known: "SYLLABUS (strip (lower module_name)) = Some topics"
  shows "(suggest_practice_tasks module_name focus_topics = NoMatches
            \<longleftrightarrow> (\<forall>t \<in> set topics.
                   (parse_topics focus_topics \<noteq> [] \<and> \<not> any_in (parse_topics focus_topics) t)
                   \<or> tasks_of t = []))
       \<and> (suggest_practice_tasks module_name focus_topics \<noteq> NoMatches
            \<longrightarrow> suggest_practice_tasks module_name focus_topics =
                 Text (PracticeHdr #
                       concat (map (\<lambda>t. TopicHdr t # map Task (tasks_of t) @ [Blank])
                         (filter (\<lambda>t. (parse_topics focus_topics = []
                                         \<or> any_in (parse_topics focus_topics) t)
                                       \<and> tasks_of t \<noteq> []) topics))))"
proof -
  let ?fl = "parse_topics focus_topics"
  let ?sel = "filter (\<lambda>t. (?fl = [] \<or> any_in ?fl t) \<and> tasks_of t \<noteq> []) topics"
  let ?blocks = "concat (map (\<lambda>t. TopicHdr t # map Task (tasks_of t) @ [Blank]) ?sel)"
  have ne: "topics \<noteq> []" using known by (rule syllabus_nonempty)
  have loop: "practice_loop ?fl topics [PracticeHdr] = PracticeHdr # ?blocks"
    by (simp add: practice_loop_eq)
  have len: "length (PracticeHdr # ?blocks) = 1 \<longleftrightarrow> ?sel = []"
    by (cases ?sel) auto
  have sel: "?sel = [] \<longleftrightarrow> (\<forall>t \<in> set topics. (?fl \<noteq> [] \<and> \<not> any_in ?fl t) \<or> tasks_of t = [])"
    by (auto simp: filter_empty_conv)
  have res: "suggest_practice_tasks module_name focus_topics =
        (if ?sel = [] then NoMatches else Text (PracticeHdr # ?blocks))"
    using known ne len by (simp add: suggest_practice_tasks_def Let_def loop)
  show ?thesis using res sel by auto
qed

theorem practice_tasks_selection_witness:
  "SYLLABUS (strip (lower '' Generative AI'')) =
     Some [''LLM fundamentals'', ''Prompt engineering'', ''OpenAI & Groq APIs'',
           ''LangChain basics'', ''Agents and Tools'', ''RAG'', ''Agent security & guardrails'']
   \<and> suggest_practice_tasks '' Generative AI'' ''groq, chain'' \<noteq> NoMatches
   \<and> suggest_practice_tasks '' Generative AI'' ''groq, chain'' =
       Text [PracticeHdr,
             TopicHdr ''LangChain basics'',
             Task ''Build a simple LangChain LLMChain using a PromptTemplate.'',
             Task ''Create a LangChain chain that calls two steps in sequence.'',
             Blank]"
proof -
  let ?topics = "[''LLM fundamentals'', ''Prompt engineering'', ''OpenAI & Groq APIs'',
           ''LangChain basics'', ''Agents and Tools'', ''RAG'', ''Agent security & guardrails'']"
  have known: "SYLLABUS (strip (lower '' Generative AI'')) = Some ?topics" by code_simp
  have ne: "suggest_practice_tasks '' Generative AI'' ''groq, chain'' \<noteq> NoMatches" by code_simp
  have sel: "PracticeHdr #
       concat (map (\<lambda>t. TopicHdr t # map Task (tasks_of t) @ [Blank])
         (filter (\<lambda>t. (parse_topics ''groq, chain'' = [] \<or> any_in (parse_topics ''groq, chain'') t)
                       \<and> tasks_of t \<noteq> []) ?topics)) =
       [PracticeHdr,
        TopicHdr ''LangChain basics'',
        Task ''Build a simple LangChain LLMChain using a PromptTemplate.'',
        Task ''Create a LangChain chain that calls two steps in sequence.'',
        Blank]"
    by code_simp
  from practice_tasks_selection [OF known, of "''groq, chain''"] ne
  have "suggest_practice_tasks '' Generative AI'' ''groq, chain'' =
          Text (PracticeHdr #
       concat (map (\<lambda>t. TopicHdr t # map Task (tasks_of t) @ [Blank])
         (filter (\<lambda>t. (parse_topics ''groq, chain'' = [] \<or> any_in (parse_topics ''groq, chain'') t)
                       \<and> tasks_of t \<noteq> []) ?topics)))"
    by blast
  with known ne show ?thesis unfolding sel by blast
qed

text \<open>
  C8. \<open>suggest_practice_tasks("generative ai", "RAG")\<close> replies with the topic RAG and its
  two tasks and nothing else; a topic without registered tasks, such as
  \<open>OpenAI & Groq APIs\<close>, is skipped even when no focus is given.
\<close>

theorem practice_tasks_rag_example:
  "suggest_practice_tasks ''generative ai'' ''RAG'' =
     Text [PracticeHdr,
           TopicHdr ''RAG'',
           Task ''Implement a basic RAG pipeline using a single PDF.'',
           Task ''Experiment with different chunk sizes and compare answer quality.'',
           Blank]
   \<and> PRACTICE_TASKS ''RAG'' =
       Some [''Implement a basic RAG pipeline using a single PDF.'',
             ''Experiment with different chunk sizes and compare answer quality.'']
   \<and> PRACTICE_TASKS ''OpenAI & Groq APIs'' = None
   \<and> practice_loop [] [''OpenAI & Groq APIs''] [PracticeHdr] = [PracticeHdr]"
  by code_simp







end
